theory Spec2Isabelle
  imports Complex_Main "HOL-Library.AList" "HOL-Library.Sublist"
begin

section \<open>Numeric cells\<close>

text \<open>
  The script \<^verbatim>\<open>plots.py\<close> loads a table of numbers with pandas and draws three charts
  with matplotlib. A cell of the table is a 64-bit integer or a double. A double is
  modelled by its IEEE 754 class: a finite value (an exact rational; \<open>Fin 0\<close> is
  \<open>+0.0\<close>), the negative zero, the two infinities and NaN. Rounding of a finite
  quotient to 53 bits is not modelled, nor is the 64-bit range of an integer column:
  the script does no integer arithmetic.
\<close>

datatype float64 = Fin rat | NegZero | PInf | NInf | NaN

fun is_inf :: "float64 \<Rightarrow> bool" where
  "is_inf PInf = True"
| "is_inf NInf = True"
| "is_inf _ = False"

fun is_zero :: "float64 \<Rightarrow> bool" where
  "is_zero (Fin q) = (q = 0)"
| "is_zero NegZero = True"
| "is_zero _ = False"

fun signbit :: "float64 \<Rightarrow> bool" where
  "signbit (Fin q) = (q < 0)"
| "signbit NegZero = True"
| "signbit NInf = True"
| "signbit _ = False"

fun magnitude :: "float64 \<Rightarrow> rat" where
  "magnitude (Fin q) = q"
| "magnitude _ = 0"


definition inf_of :: "bool \<Rightarrow> float64" where
  "inf_of neg = (if neg then NInf else PInf)"

definition zero_of :: "bool \<Rightarrow> float64" where
  "zero_of neg = (if neg then NegZero else Fin 0)"

text \<open>
  The division of two doubles as numpy computes it under pandas, which silences the
  floating-point warnings: nothing is raised, a zero divisor gives an infinity, or NaN
  when the dividend is a zero or NaN too.
\<close>

definition truediv :: "float64 \<Rightarrow> float64 \<Rightarrow> float64" where
  "truediv x y =
     (if x = NaN \<or> y = NaN then NaN
      else if is_inf x then (if is_inf y then NaN else inf_of (signbit x \<noteq> signbit y))
      else if is_inf y then zero_of (signbit x \<noteq> signbit y)
      else if is_zero y then (if is_zero x then NaN else inf_of (signbit x \<noteq> signbit y))
      else if is_zero x then zero_of (signbit x \<noteq> signbit y)
      else Fin (magnitude x / magnitude y))"

text \<open>Adding a finite, non-zero constant \<open>c\<close> to a double.\<close>

fun add_const :: "rat \<Rightarrow> float64 \<Rightarrow> float64" where
  "add_const c (Fin q) = Fin (q + c)"
| "add_const c NegZero = Fin c"
| "add_const c x = x"

section \<open>Series and frames\<close>

text \<open>
  A column (a pandas \<^verbatim>\<open>Series\<close>) has one dtype, \<^verbatim>\<open>int64\<close> or \<^verbatim>\<open>float64\<close>.
  The true division \<^verbatim>\<open>a / b\<close> of two columns converts both to doubles and divides
  position by position; both operands of the script's divisions are columns of the one
  table, so they carry the same index and pandas does not realign them.
\<close>

datatype series = Int64 "int list" | Float64 "float64 list"

fun astype_float :: "series \<Rightarrow> float64 list" where
  "astype_float (Int64 xs) = map (\<lambda>i. Fin (of_int i)) xs"
| "astype_float (Float64 xs) = xs"

fun len :: "series \<Rightarrow> nat" where
  "len (Int64 xs) = length xs"
| "len (Float64 xs) = length xs"

definition series_truediv :: "series \<Rightarrow> series \<Rightarrow> series" where
  "series_truediv a b = Float64 (map2 truediv (astype_float a) (astype_float b))"

definition series_add :: "series \<Rightarrow> rat \<Rightarrow> series" where
  "series_add a c = Float64 (map (add_const c) (astype_float a))"

text \<open>\<^verbatim>\<open>numpy.arange(n)\<close>: the integers \<open>0, ..., n - 1\<close>.\<close>

definition arange :: "nat \<Rightarrow> series" where
  "arange n = Int64 (map int [0..<n])"

datatype error =
  FileNotFoundError
| EmptyDataError
| ParserError
| KeyError string

text \<open>
  The table (a pandas \<^verbatim>\<open>DataFrame\<close>): the number of rows (the length of its index) and
  the columns in their order. \<^verbatim>\<open>df[k]\<close> raises \<^verbatim>\<open>KeyError\<close> when no column is named
  \<open>k\<close>; \<^verbatim>\<open>df[k] = v\<close> replaces the column named \<open>k\<close> where it stands, or appends a new
  column after the others; \<^verbatim>\<open>df[k] = c\<close> with a scalar \<open>c\<close> fills one cell per row.
\<close>

record frame =
  nrows :: nat
  cols :: "(string \<times> series) list"

definition getitem :: "frame \<Rightarrow> string \<Rightarrow> error + series" where
  "getitem d k = (case map_of (cols d) k of None \<Rightarrow> Inl (KeyError k) | Some v \<Rightarrow> Inr v)"

definition setitem :: "frame \<Rightarrow> string \<Rightarrow> series \<Rightarrow> frame" where
  "setitem d k v = d\<lparr>cols := AList.update k v (cols d)\<rparr>"

definition broadcast :: "frame \<Rightarrow> int \<Rightarrow> series" where
  "broadcast d c = Int64 (replicate (nrows d) c)"

text \<open>The invariant of a table: every column has one entry per row.\<close>

definition wf_frame :: "frame \<Rightarrow> bool" where
  "wf_frame d = list_all (\<lambda>(k, v). len v = nrows d) (cols d)"

section \<open>Loading the report\<close>

text \<open>
  The input file as pandas tokenises it: the names of the header line and, for every
  non-blank line after it, its fields in order. The table holds numbers (the report's
  sizes, times and speedups), so a field is an integer literal, a floating-point literal
  or empty; text fields are outside the model.
\<close>

datatype field = IntLit int | FloatLit float64 | NoValue

record csv =
  header :: "string list"
  data_lines :: "field list list"

fun is_int_lit :: "field \<Rightarrow> bool" where
  "is_int_lit (IntLit i) = True"
| "is_int_lit _ = False"

fun int_of :: "field \<Rightarrow> int" where
  "int_of (IntLit i) = i"
| "int_of _ = 0"

fun float_of :: "field \<Rightarrow> float64" where
  "float_of (IntLit i) = Fin (of_int i)"
| "float_of (FloatLit x) = x"
| "float_of NoValue = NaN"

text \<open>A column of integer literals only is \<^verbatim>\<open>int64\<close>; any other is \<^verbatim>\<open>float64\<close>, an
  empty field reading as NaN.\<close>

definition infer_dtype :: "field list \<Rightarrow> series" where
  "infer_dtype fs =
     (if list_all is_int_lit fs then Int64 (map int_of fs) else Float64 (map float_of fs))"

definition field_at :: "field list \<Rightarrow> nat \<Rightarrow> field" where
  "field_at r j = (if j < length r then r ! j else NoValue)"

text \<open>
  The number of fields pandas expects on a line: that of the header, or that of the
  first data line when it is longer (its leading extra fields then become the index of
  the table, which the script never reads). A shorter line is padded with empty fields,
  a longer one is a \<^verbatim>\<open>ParserError\<close>.
\<close>

definition width :: "csv \<Rightarrow> nat" where
  "width f =
     (case data_lines f of
        [] \<Rightarrow> length (header f)
      | r # _ \<Rightarrow> max (length (header f)) (length r))"

text \<open>Column \<open>j\<close> of the table: field \<open>j\<close> of every data line, after the index fields.\<close>

definition column :: "csv \<Rightarrow> nat \<Rightarrow> series" where
  "column f j =
     infer_dtype (map (\<lambda>r. field_at r (width f - length (header f) + j)) (data_lines f))"

text \<open>
  \<^verbatim>\<open>pd.read_csv('complete_performance_report.csv')\<close>, on the file of that name in the
  working directory (\<open>None\<close> when there is none; a file with no header line has no
  columns to parse). One column per header name, one row per data line, in the order of
  the file. pandas renames a repeated header name from its second occurrence on; the
  names are kept here as written, and a lookup finds the first occurrence in both.
\<close>

definition read_csv :: "csv option \<Rightarrow> error + frame" where
  "read_csv file =
     (case file of
        None \<Rightarrow> Inl FileNotFoundError
      | Some f \<Rightarrow>
          if header f = [] then Inl EmptyDataError
          else if list_ex (\<lambda>r. width f < length r) (data_lines f) then Inl ParserError
          else Inr \<lparr>nrows = length (data_lines f),
                    cols = map (\<lambda>j. (header f ! j, column f j)) [0..<length (header f)]\<rparr>)"

section \<open>Charts\<close>

text \<open>
  What the script puts on a figure through \<^verbatim>\<open>matplotlib.pyplot\<close>: the artists with
  the series they draw, the scales, the labels. An image file is the figure as it stood
  when \<^verbatim>\<open>savefig\<close> ran, with the resolution asked for; the encoded bytes are not
  modelled.
\<close>

datatype scale = Linear | Log

datatype artist =
  Line2D series series string string
| AxHLine int string string string
| Bar series series rat string string

record figure =
  figsize :: "rat \<times> rat"
  artists :: "artist list"
  xscale :: scale
  yscale :: scale
  xlabel :: string
  ylabel :: string
  title :: string
  xticks :: "(series \<times> series) option"
  legend :: bool
  grid :: bool
  tight :: bool

definition new_figure :: "rat \<times> rat \<Rightarrow> figure" where
  "new_figure sz =
     \<lparr>figsize = sz, artists = [], xscale = Linear, yscale = Linear, xlabel = [],
      ylabel = [], title = [], xticks = None, legend = False, grid = False, tight = False\<rparr>"

record image =
  picture :: figure
  dpi :: nat

section \<open>The state of a run\<close>

text \<open>
  The working directory (the input file and the image files by name), the table
  \<^verbatim>\<open>df\<close>, pyplot's current figure, and the trace of what the run did so far: figures
  opened, files written, figures shown, columns assigned.
\<close>

datatype event = Figure | Savefig string | Show | SetItem string

record state =
  csv_file :: "csv option"
  files :: "string \<rightharpoonup> image"
  df :: frame
  fig :: figure
  trace :: "event list"

type_synonym stmt = "state \<Rightarrow> error + state"

definition bind :: "error + 'a \<Rightarrow> ('a \<Rightarrow> error + 'b) \<Rightarrow> error + 'b" where
  "bind r f = (case r of Inl e \<Rightarrow> Inl e | Inr x \<Rightarrow> f x)"

text \<open>A call that cannot fail, and the evaluation of \<^verbatim>\<open>df[k]\<close> as an argument.\<close>

definition pure :: "(state \<Rightarrow> state) \<Rightarrow> stmt" where
  "pure f s = Inr (f s)"

definition with_col :: "string \<Rightarrow> (series \<Rightarrow> stmt) \<Rightarrow> stmt" where
  "with_col k f s = bind (getitem (df s) k) (\<lambda>v. f v s)"

definition df_setitem :: "string \<Rightarrow> series \<Rightarrow> state \<Rightarrow> state" where
  "df_setitem k v s = s\<lparr>df := setitem (df s) k v, trace := trace s @ [SetItem k]\<rparr>"

definition plt_figure :: "rat \<times> rat \<Rightarrow> state \<Rightarrow> state" where
  "plt_figure sz s = s\<lparr>fig := new_figure sz, trace := trace s @ [Figure]\<rparr>"

definition add_artist :: "artist \<Rightarrow> state \<Rightarrow> state" where
  "add_artist a s = s\<lparr>fig := (fig s)\<lparr>artists := artists (fig s) @ [a]\<rparr>\<rparr>"

definition plt_plot :: "series \<Rightarrow> series \<Rightarrow> string \<Rightarrow> string \<Rightarrow> state \<Rightarrow> state" where
  "plt_plot x y marker label = add_artist (Line2D x y marker label)"

definition plt_axhline :: "int \<Rightarrow> string \<Rightarrow> string \<Rightarrow> string \<Rightarrow> state \<Rightarrow> state" where
  "plt_axhline y color linestyle label = add_artist (AxHLine y color linestyle label)"

definition plt_bar :: "series \<Rightarrow> series \<Rightarrow> rat \<Rightarrow> string \<Rightarrow> string \<Rightarrow> state \<Rightarrow> state" where
  "plt_bar x height w label align = add_artist (Bar x height w label align)"

definition plt_xscale :: "scale \<Rightarrow> state \<Rightarrow> state" where
  "plt_xscale v s = s\<lparr>fig := (fig s)\<lparr>xscale := v\<rparr>\<rparr>"

definition plt_yscale :: "scale \<Rightarrow> state \<Rightarrow> state" where
  "plt_yscale v s = s\<lparr>fig := (fig s)\<lparr>yscale := v\<rparr>\<rparr>"

definition plt_xlabel :: "string \<Rightarrow> state \<Rightarrow> state" where
  "plt_xlabel v s = s\<lparr>fig := (fig s)\<lparr>xlabel := v\<rparr>\<rparr>"

definition plt_ylabel :: "string \<Rightarrow> state \<Rightarrow> state" where
  "plt_ylabel v s = s\<lparr>fig := (fig s)\<lparr>ylabel := v\<rparr>\<rparr>"

definition plt_title :: "string \<Rightarrow> state \<Rightarrow> state" where
  "plt_title v s = s\<lparr>fig := (fig s)\<lparr>title := v\<rparr>\<rparr>"

definition plt_xticks :: "series \<Rightarrow> series \<Rightarrow> state \<Rightarrow> state" where
  "plt_xticks ticks labels s = s\<lparr>fig := (fig s)\<lparr>xticks := Some (ticks, labels)\<rparr>\<rparr>"

definition plt_legend :: "state \<Rightarrow> state" where
  "plt_legend s = s\<lparr>fig := (fig s)\<lparr>legend := True\<rparr>\<rparr>"

definition plt_grid :: "bool \<Rightarrow> state \<Rightarrow> state" where
  "plt_grid v s = s\<lparr>fig := (fig s)\<lparr>grid := v\<rparr>\<rparr>"

definition plt_tight_layout :: "state \<Rightarrow> state" where
  "plt_tight_layout s = s\<lparr>fig := (fig s)\<lparr>tight := True\<rparr>\<rparr>"

text \<open>\<^verbatim>\<open>plt.savefig(name, dpi=d)\<close> writes the current figure to the file \<open>name\<close> of the
  working directory, replacing a file of that name; \<^verbatim>\<open>plt.show()\<close> displays it and
  returns.\<close>

definition plt_savefig :: "string \<Rightarrow> nat \<Rightarrow> state \<Rightarrow> state" where
  "plt_savefig name d s =
     s\<lparr>files := (files s)(name \<mapsto> \<lparr>picture = fig s, dpi = d\<rparr>),
       trace := trace s @ [Savefig name]\<rparr>"

definition plt_show :: "state \<Rightarrow> state" where
  "plt_show s = s\<lparr>trace := trace s @ [Show]\<rparr>"

section \<open>The script\<close>

text \<open>
  \<^verbatim>\<open>plots.py\<close> is a sequence of top-level statements, one list element per line of
  the source. An exception ends the run where it is raised: the state stays as the
  statements before it left it.
\<close>

definition load :: stmt where
  "load s = bind (read_csv (csv_file s)) (\<lambda>d. Inr (s\<lparr>df := d\<rparr>))"

definition plot_1 :: "stmt list" where
  "plot_1 =
     [pure (plt_figure (12, 6)),
      with_col ''Input Size'' (\<lambda>x. with_col ''Sequential Time'' (\<lambda>y.
        pure (plt_plot x y ''o'' ''Sequential''))),
      with_col ''Input Size'' (\<lambda>x. with_col ''Parallel Time'' (\<lambda>y.
        pure (plt_plot x y ''s'' ''Parallel''))),
      with_col ''Input Size'' (\<lambda>x. with_col ''Optimized Parallel Time'' (\<lambda>y.
        pure (plt_plot x y ''^'' ''Optimized Parallel''))),
      pure (plt_xscale Log),
      pure (plt_yscale Log),
      pure (plt_xlabel ''Input Size''),
      pure (plt_ylabel ''Execution Time (seconds)''),
      pure (plt_title ''Execution Time Comparison''),
      pure plt_legend,
      pure (plt_grid True),
      pure plt_tight_layout,
      pure (plt_savefig ''execution_time_comparison.png'' 300),
      pure plt_show]"

definition plot_2 :: "stmt list" where
  "plot_2 =
     [pure (plt_figure (12, 6)),
      with_col ''Input Size'' (\<lambda>x. with_col ''Parallel Speedup'' (\<lambda>y.
        pure (plt_plot x y ''o'' ''Parallel Speedup''))),
      with_col ''Input Size'' (\<lambda>x. with_col ''Optimized Speedup'' (\<lambda>y.
        pure (plt_plot x y ''s'' ''Optimized Speedup''))),
      pure (plt_axhline 1 ''r'' ''--'' ''Baseline (Sequential)''),
      pure (plt_xscale Log),
      pure (plt_xlabel ''Input Size''),
      pure (plt_ylabel ''Speedup''),
      pure (plt_title ''Speedup Comparison''),
      pure plt_legend,
      pure (plt_grid True),
      pure plt_tight_layout,
      pure (plt_savefig ''speedup_comparison.png'' 300),
      pure plt_show]"

text \<open>Lines 40 to 42: the three derived columns.\<close>

definition relative :: "stmt list" where
  "relative =
     [(\<lambda>s. pure (df_setitem ''Sequential Relative'' (broadcast (df s) 1)) s),
      with_col ''Sequential Time'' (\<lambda>a. with_col ''Parallel Time'' (\<lambda>b.
        pure (df_setitem ''Parallel Relative'' (series_truediv a b)))),
      with_col ''Sequential Time'' (\<lambda>a. with_col ''Optimized Parallel Time'' (\<lambda>b.
        pure (df_setitem ''Optimized Relative'' (series_truediv a b))))]"

definition plot_3 :: "stmt list" where
  "plot_3 =
     [pure (plt_figure (12, 6)),
      (\<lambda>s. with_col ''Sequential Relative'' (\<lambda>h.
        pure (plt_bar (series_add (arange (nrows (df s))) (- (2 / 10))) h (2 / 10)
                ''Sequential'' ''center'')) s),
      (\<lambda>s. with_col ''Parallel Relative'' (\<lambda>h.
        pure (plt_bar (arange (nrows (df s))) h (2 / 10) ''Parallel'' ''center'')) s),
      (\<lambda>s. with_col ''Optimized Relative'' (\<lambda>h.
        pure (plt_bar (series_add (arange (nrows (df s))) (2 / 10)) h (2 / 10)
                ''Optimized Parallel'' ''center'')) s),
      pure (plt_xlabel ''Input Size''),
      pure (plt_ylabel ''Relative Performance''),
      pure (plt_title ''Relative Performance Comparison''),
      (\<lambda>s. with_col ''Input Size'' (\<lambda>l. pure (plt_xticks (arange (nrows (df s))) l)) s),
      pure plt_legend,
      pure (plt_grid True),
      pure plt_tight_layout,
      pure (plt_savefig ''relative_performance_comparison.png'' 300),
      pure plt_show]"

definition script :: "stmt list" where
  "script = load # plot_1 @ plot_2 @ relative @ plot_3"

fun run :: "stmt list \<Rightarrow> state \<Rightarrow> state \<times> error option" where
  "run [] s = (s, None)"
| "run (c # cs) s = (case c s of Inl e \<Rightarrow> (s, Some e) | Inr s' \<Rightarrow> run cs s')"

text \<open>
  A run starts in a working directory holding the input file \<open>inp\<close> and the image
  files \<open>fs\<close>, with pyplot's default figure; \<^verbatim>\<open>df\<close> is unbound until line 6 binds it,
  and no statement reads it before.
\<close>

definition start :: "csv option \<Rightarrow> (string \<rightharpoonup> image) \<Rightarrow> state" where
  "start inp fs =
     \<lparr>csv_file = inp, files = fs, df = \<lparr>nrows = 0, cols = []\<rparr>,
      fig = new_figure (64 / 10, 48 / 10), trace = []\<rparr>"

definition main :: "csv option \<Rightarrow> (string \<rightharpoonup> image) \<Rightarrow> state \<times> error option" where
  "main inp fs = run script (start inp fs)"

section \<open>What a run leaves behind\<close>

text \<open>
  The figures that lines 9 to 20, 25 to 35 and 44 to 54 build from the columns they
  read, the table after lines 40 to 42, and the states a run goes through: after line 6,
  after the first chart, and at the end of a run that raised nothing. The lemmas below
  prove that \<open>run\<close> computes them.
\<close>

definition chart_1 :: "series \<Rightarrow> series \<Rightarrow> series \<Rightarrow> series \<Rightarrow> figure" where
  "chart_1 x a b c =
     \<lparr>figsize = (12, 6),
      artists = [Line2D x a ''o'' ''Sequential'', Line2D x b ''s'' ''Parallel'',
                 Line2D x c ''^'' ''Optimized Parallel''],
      xscale = Log, yscale = Log, xlabel = ''Input Size'',
      ylabel = ''Execution Time (seconds)'', title = ''Execution Time Comparison'',
      xticks = None, legend = True, grid = True, tight = True\<rparr>"

definition chart_2 :: "series \<Rightarrow> series \<Rightarrow> series \<Rightarrow> figure" where
  "chart_2 x p q =
     \<lparr>figsize = (12, 6),
      artists = [Line2D x p ''o'' ''Parallel Speedup'', Line2D x q ''s'' ''Optimized Speedup'',
                 AxHLine 1 ''r'' ''--'' ''Baseline (Sequential)''],
      xscale = Log, yscale = Linear, xlabel = ''Input Size'',
      ylabel = ''Speedup'', title = ''Speedup Comparison'',
      xticks = None, legend = True, grid = True, tight = True\<rparr>"

definition chart_3 :: "nat \<Rightarrow> series \<Rightarrow> series \<Rightarrow> series \<Rightarrow> series \<Rightarrow> figure" where
  "chart_3 n r p q x =
     \<lparr>figsize = (12, 6),
      artists = [Bar (series_add (arange n) (- (2 / 10))) r (2 / 10) ''Sequential'' ''center'',
                 Bar (arange n) p (2 / 10) ''Parallel'' ''center'',
                 Bar (series_add (arange n) (2 / 10)) q (2 / 10) ''Optimized Parallel'' ''center''],
      xscale = Linear, yscale = Linear, xlabel = ''Input Size'',
      ylabel = ''Relative Performance'', title = ''Relative Performance Comparison'',
      xticks = Some (arange n, x), legend = True, grid = True, tight = True\<rparr>"

definition with_relative :: "frame \<Rightarrow> series \<Rightarrow> series \<Rightarrow> series \<Rightarrow> frame" where
  "with_relative d a b c =
     setitem (setitem (setitem d ''Sequential Relative'' (broadcast d 1))
                ''Parallel Relative'' (series_truediv a b))
       ''Optimized Relative'' (series_truediv a c)"

definition loaded :: "csv option \<Rightarrow> (string \<rightharpoonup> image) \<Rightarrow> frame \<Rightarrow> state" where
  "loaded inp fs d = (start inp fs)\<lparr>df := d\<rparr>"

definition after_1 :: "csv option \<Rightarrow> (string \<rightharpoonup> image) \<Rightarrow> frame \<Rightarrow> series \<Rightarrow> series \<Rightarrow> series \<Rightarrow> series \<Rightarrow> state" where
  "after_1 inp fs d x a b c =
     \<lparr>csv_file = inp,
      files = fs(''execution_time_comparison.png'' \<mapsto> \<lparr>picture = chart_1 x a b c, dpi = 300\<rparr>),
      df = d, fig = chart_1 x a b c,
      trace = [Figure, Savefig ''execution_time_comparison.png'', Show]\<rparr>"

definition final :: "csv option \<Rightarrow> (string \<rightharpoonup> image) \<Rightarrow> frame \<Rightarrow> series \<Rightarrow> series \<Rightarrow> series \<Rightarrow> series \<Rightarrow> series \<Rightarrow> series \<Rightarrow> state" where
  "final inp fs d x a b c p q =
     \<lparr>csv_file = inp,
      files = fs(''execution_time_comparison.png'' \<mapsto> \<lparr>picture = chart_1 x a b c, dpi = 300\<rparr>,
                 ''speedup_comparison.png'' \<mapsto> \<lparr>picture = chart_2 x p q, dpi = 300\<rparr>,
                 ''relative_performance_comparison.png'' \<mapsto>
                   \<lparr>picture = chart_3 (nrows d) (broadcast d 1) (series_truediv a b)
                                (series_truediv a c) x, dpi = 300\<rparr>),
      df = with_relative d a b c,
      fig = chart_3 (nrows d) (broadcast d 1) (series_truediv a b) (series_truediv a c) x,
      trace = [Figure, Savefig ''execution_time_comparison.png'', Show,
               Figure, Savefig ''speedup_comparison.png'', Show,
               SetItem ''Sequential Relative'', SetItem ''Parallel Relative'',
               SetItem ''Optimized Relative'',
               Figure, Savefig ''relative_performance_comparison.png'', Show]\<rparr>"

section \<open>Notions of the statements\<close>

text \<open>The six columns of the report, and the three that lines 40 to 42 assign.\<close>

definition report_columns :: "string list" where
  "report_columns =
     [''Input Size'', ''Sequential Time'', ''Parallel Time'', ''Optimized Parallel Time'',
      ''Parallel Speedup'', ''Optimized Speedup'']"




text \<open>The names of the files written, in the order of the writes.\<close>

fun saved :: "event list \<Rightarrow> string list" where
  "saved [] = []"
| "saved (Savefig n # es) = n # saved es"
| "saved (e # es) = saved es"


section \<open>Sample inputs\<close>


text \<open>The row \<open>(100, 10, 2, 1)\<close>, as the only row of a table.\<close>

definition row_table :: frame where
  "row_table =
     \<lparr>nrows = 1,
      cols = [(''Input Size'', Int64 [100]),
              (''Sequential Time'', Int64 [10]),
              (''Parallel Time'', Int64 [2]),
              (''Optimized Parallel Time'', Int64 [1])]\<rparr>"

text \<open>A complete report of two data lines, and one without the two speedup columns.\<close>

definition sample_report :: csv where
  "sample_report =
     \<lparr>header = [''Input Size'', ''Sequential Time'', ''Parallel Time'',
                ''Optimized Parallel Time'', ''Parallel Speedup'', ''Optimized Speedup''],
      data_lines =
        [[IntLit 100, FloatLit (Fin (3 / 2)), FloatLit (Fin (1 / 2)), FloatLit (Fin (1 / 4)),
          FloatLit (Fin 3), FloatLit (Fin 6)],
         [IntLit 1000, FloatLit (Fin 12), FloatLit (Fin 3), FloatLit (Fin 2),
          FloatLit (Fin 4), FloatLit (Fin 6)]]\<rparr>"

definition report_without_speedups :: csv where
  "report_without_speedups =
     \<lparr>header = [''Input Size'', ''Sequential Time'', ''Parallel Time'',
                ''Optimized Parallel Time''],
      data_lines = [[IntLit 100, IntLit 10, IntLit 2, IntLit 1]]\<rparr>"

text \<open>The table that \<open>read_csv\<close> makes of \<open>sample_report\<close>.\<close>

definition sample_loaded :: frame where
  "sample_loaded =
     \<lparr>nrows = 2,
      cols = [(''Input Size'', Int64 [100, 1000]),
              (''Sequential Time'', Float64 [Fin (3 / 2), Fin 12]),
              (''Parallel Time'', Float64 [Fin (1 / 2), Fin 3]),
              (''Optimized Parallel Time'', Float64 [Fin (1 / 4), Fin 2]),
              (''Parallel Speedup'', Float64 [Fin 3, Fin 4]),
              (''Optimized Speedup'', Float64 [Fin 6, Fin 6])]\<rparr>"

text \<open>A report without the \<open>Optimized Parallel Time\<close> column.\<close>

definition report_without_optimized :: csv where
  "report_without_optimized =
     \<lparr>header = [''Input Size'', ''Sequential Time'', ''Parallel Time''],
      data_lines = [[IntLit 100, IntLit 10, IntLit 2]]\<rparr>"

section \<open>Running a list of statements\<close>

lemma run_append:
  "run (cs @ ds) s = (case run cs s of (s', None) \<Rightarrow> run ds s' | (s', Some e) \<Rightarrow> (s', Some e))"
  by (induction cs arbitrary: s) (auto split: sum.splits)

lemma run_append_error: "snd (run cs s) = Some e \<Longrightarrow> run (cs @ ds) s = run cs s"
  by (cases "run cs s") (simp add: run_append)


lemmas plt_defs = pure_def with_col_def bind_def getitem_def plt_figure_def add_artist_def
  plt_plot_def plt_axhline_def plt_bar_def plt_xscale_def plt_yscale_def plt_xlabel_def
  plt_ylabel_def plt_title_def plt_xticks_def plt_legend_def plt_grid_def
  plt_tight_layout_def plt_savefig_def plt_show_def df_setitem_def

section \<open>Tables\<close>

lemma getitem_Inr: "getitem d k = Inr v \<longleftrightarrow> map_of (cols d) k = Some v"
  by (simp add: getitem_def split: option.splits)

lemma map_of_setitem: "map_of (cols (setitem d k v)) = (map_of (cols d))(k \<mapsto> v)"
  by (simp add: setitem_def update_conv')

lemma nrows_setitem: "nrows (setitem d k v) = nrows d"
  by (simp add: setitem_def)




lemma wf_frame_lookup: "wf_frame d \<Longrightarrow> map_of (cols d) k = Some v \<Longrightarrow> len v = nrows d"
  by (auto simp: wf_frame_def list_all_iff dest: map_of_SomeD)


lemma length_astype_float: "length (astype_float v) = len v"
  by (cases v) simp_all



lemma truediv_cell:
  assumes "i < len a" "i < len b"
  shows "astype_float (series_truediv a b) ! i = truediv (astype_float a ! i) (astype_float b ! i)"
  using assms by (simp add: series_truediv_def length_astype_float)


lemma map_of_with_relative:
  "map_of (cols (with_relative d a b c)) =
     (map_of (cols d))(''Sequential Relative'' \<mapsto> broadcast d 1,
        ''Parallel Relative'' \<mapsto> series_truediv a b,
        ''Optimized Relative'' \<mapsto> series_truediv a c)"
  by (simp add: with_relative_def map_of_setitem)

lemma nrows_with_relative: "nrows (with_relative d a b c) = nrows d"
  by (simp add: with_relative_def nrows_setitem)

section \<open>The loaded table\<close>




lemma read_csv_Inr:
  assumes "read_csv (Some f) = Inr d"
  shows "d = \<lparr>nrows = length (data_lines f),
              cols = map (\<lambda>j. (header f ! j, column f j)) [0..<length (header f)]\<rparr>"
  using assms by (simp add: read_csv_def column_def split: if_splits)


lemma read_csv_keys:
  assumes "read_csv (Some f) = Inr d" and "map_of (cols d) k = Some v"
  shows "k \<in> set (header f)"
proof -
  from assms(2) have "k \<in> fst ` set (cols d)"
    by (auto dest: map_of_SomeD intro: rev_image_eqI)
  then show ?thesis
    unfolding read_csv_Inr [OF assms(1)] by auto
qed

section \<open>The blocks of the script\<close>

lemma plot_1_ok:
  assumes "map_of (cols (df s)) ''Input Size'' = Some x"
    and "map_of (cols (df s)) ''Sequential Time'' = Some a"
    and "map_of (cols (df s)) ''Parallel Time'' = Some b"
    and "map_of (cols (df s)) ''Optimized Parallel Time'' = Some c"
  shows "run plot_1 s =
    (s\<lparr>files := (files s)(''execution_time_comparison.png'' \<mapsto>
                     \<lparr>picture = chart_1 x a b c, dpi = 300\<rparr>),
       fig := chart_1 x a b c,
       trace := trace s @ [Figure, Savefig ''execution_time_comparison.png'', Show]\<rparr>, None)"
  using assms by (simp add: plot_1_def plt_defs new_figure_def chart_1_def)

lemma plot_1_cases:
  "(\<exists>x a b c. map_of (cols (df s)) ''Input Size'' = Some x
      \<and> map_of (cols (df s)) ''Sequential Time'' = Some a
      \<and> map_of (cols (df s)) ''Parallel Time'' = Some b
      \<and> map_of (cols (df s)) ''Optimized Parallel Time'' = Some c)
   \<or> (\<exists>s' k. run plot_1 s = (s', Some (KeyError k)) \<and> files s' = files s \<and> df s' = df s
        \<and> trace s' = trace s @ [Figure])"
  by (simp add: plot_1_def plt_defs new_figure_def split: option.splits)

lemma plot_2_ok:
  assumes "map_of (cols (df s)) ''Input Size'' = Some x"
    and "map_of (cols (df s)) ''Parallel Speedup'' = Some p"
    and "map_of (cols (df s)) ''Optimized Speedup'' = Some q"
  shows "run plot_2 s =
    (s\<lparr>files := (files s)(''speedup_comparison.png'' \<mapsto> \<lparr>picture = chart_2 x p q, dpi = 300\<rparr>),
       fig := chart_2 x p q,
       trace := trace s @ [Figure, Savefig ''speedup_comparison.png'', Show]\<rparr>, None)"
  using assms by (simp add: plot_2_def plt_defs new_figure_def chart_2_def)

lemma plot_2_cases:
  "(\<exists>x p q. map_of (cols (df s)) ''Input Size'' = Some x
      \<and> map_of (cols (df s)) ''Parallel Speedup'' = Some p
      \<and> map_of (cols (df s)) ''Optimized Speedup'' = Some q)
   \<or> (\<exists>s' k. run plot_2 s = (s', Some (KeyError k)) \<and> files s' = files s \<and> df s' = df s
        \<and> trace s' = trace s @ [Figure])"
  by (simp add: plot_2_def plt_defs new_figure_def split: option.splits)

lemma relative_ok:
  assumes "map_of (cols (df s)) ''Sequential Time'' = Some a"
    and "map_of (cols (df s)) ''Parallel Time'' = Some b"
    and "map_of (cols (df s)) ''Optimized Parallel Time'' = Some c"
  shows "run relative s =
    (s\<lparr>df := with_relative (df s) a b c,
       trace := trace s @ [SetItem ''Sequential Relative'', SetItem ''Parallel Relative'',
                           SetItem ''Optimized Relative'']\<rparr>, None)"
  using assms by (simp add: relative_def plt_defs with_relative_def map_of_setitem)


lemma plot_3_ok:
  assumes "map_of (cols (df s)) ''Sequential Relative'' = Some r"
    and "map_of (cols (df s)) ''Parallel Relative'' = Some p"
    and "map_of (cols (df s)) ''Optimized Relative'' = Some q"
    and "map_of (cols (df s)) ''Input Size'' = Some x"
  shows "run plot_3 s =
    (s\<lparr>files := (files s)(''relative_performance_comparison.png'' \<mapsto>
                     \<lparr>picture = chart_3 (nrows (df s)) r p q x, dpi = 300\<rparr>),
       fig := chart_3 (nrows (df s)) r p q x,
       trace := trace s @ [Figure, Savefig ''relative_performance_comparison.png'', Show]\<rparr>, None)"
  using assms by (simp add: plot_3_def plt_defs new_figure_def chart_3_def)

section \<open>A whole run\<close>

lemma main_load:
  "main inp fs =
     (case read_csv inp of
        Inl e \<Rightarrow> (start inp fs, Some e)
      | Inr d \<Rightarrow> run (plot_1 @ plot_2 @ relative @ plot_3) (loaded inp fs d))"
  by (simp add: main_def script_def load_def bind_def loaded_def start_def split: sum.splits)

lemma main_plot_1_error:
  assumes "read_csv inp = Inr d"
    and "\<not> (\<exists>x a b c. map_of (cols d) ''Input Size'' = Some x
      \<and> map_of (cols d) ''Sequential Time'' = Some a
      \<and> map_of (cols d) ''Parallel Time'' = Some b
      \<and> map_of (cols d) ''Optimized Parallel Time'' = Some c)"
  shows "\<exists>s' k. main inp fs = (s', Some (KeyError k)) \<and> files s' = fs \<and> df s' = d
           \<and> trace s' = [Figure]"
proof -
  have "df (loaded inp fs d) = d" "files (loaded inp fs d) = fs" "trace (loaded inp fs d) = []"
    by (simp_all add: loaded_def start_def)
  with assms(2) plot_1_cases [of "loaded inp fs d"]
  obtain s' k where "run plot_1 (loaded inp fs d) = (s', Some (KeyError k))"
    "files s' = fs" "df s' = d" "trace s' = [Figure]"
    by auto
  then show ?thesis
    using assms(1) by (simp add: main_load run_append)
qed

lemma run_plot_1_loaded:
  assumes "map_of (cols d) ''Input Size'' = Some x"
    and "map_of (cols d) ''Sequential Time'' = Some a"
    and "map_of (cols d) ''Parallel Time'' = Some b"
    and "map_of (cols d) ''Optimized Parallel Time'' = Some c"
  shows "run plot_1 (loaded inp fs d) = (after_1 inp fs d x a b c, None)"
proof -
  have "df (loaded inp fs d) = d"
    by (simp add: loaded_def)
  with assms show ?thesis
    using plot_1_ok [of "loaded inp fs d" x a b c]
    by (simp add: after_1_def loaded_def start_def)
qed

lemma main_plot_2_error:
  assumes "read_csv inp = Inr d"
    and "map_of (cols d) ''Input Size'' = Some x"
    and "map_of (cols d) ''Sequential Time'' = Some a"
    and "map_of (cols d) ''Parallel Time'' = Some b"
    and "map_of (cols d) ''Optimized Parallel Time'' = Some c"
    and "\<not> (\<exists>p q. map_of (cols d) ''Parallel Speedup'' = Some p
      \<and> map_of (cols d) ''Optimized Speedup'' = Some q)"
  shows "\<exists>s' k. main inp fs = (s', Some (KeyError k))
           \<and> files s' = fs(''execution_time_comparison.png'' \<mapsto> \<lparr>picture = chart_1 x a b c, dpi = 300\<rparr>)
           \<and> df s' = d
           \<and> trace s' = [Figure, Savefig ''execution_time_comparison.png'', Show, Figure]"
proof -
  let ?s = "after_1 inp fs d x a b c"
  have "df ?s = d" by (simp add: after_1_def)
  with assms(2,6) plot_2_cases [of ?s]
  obtain s' k where "run plot_2 ?s = (s', Some (KeyError k))"
    "files s' = files ?s" "df s' = d" "trace s' = trace ?s @ [Figure]"
    by auto
  then show ?thesis
    using assms(1) run_plot_1_loaded [OF assms(2-5), of inp fs]
    by (simp add: main_load run_append after_1_def)
qed

lemma main_ok:
  assumes "read_csv inp = Inr d"
    and "map_of (cols d) ''Input Size'' = Some x"
    and "map_of (cols d) ''Sequential Time'' = Some a"
    and "map_of (cols d) ''Parallel Time'' = Some b"
    and "map_of (cols d) ''Optimized Parallel Time'' = Some c"
    and "map_of (cols d) ''Parallel Speedup'' = Some p"
    and "map_of (cols d) ''Optimized Speedup'' = Some q"
  shows "main inp fs = (final inp fs d x a b c p q, None)"
proof -
  let ?s1 = "after_1 inp fs d x a b c"
  have d1: "df ?s1 = d" by (simp add: after_1_def)
  obtain s2 where r2: "run plot_2 ?s1 = (s2, None)"
    and s2: "s2 = ?s1\<lparr>files := (files ?s1)(''speedup_comparison.png'' \<mapsto> \<lparr>picture = chart_2 x p q, dpi = 300\<rparr>),
       fig := chart_2 x p q,
       trace := trace ?s1 @ [Figure, Savefig ''speedup_comparison.png'', Show]\<rparr>"
    using plot_2_ok [of ?s1 x p q] assms(2,6,7) d1 by simp
  have d2: "df s2 = d" by (simp add: s2 d1)
  obtain s3 where r3: "run relative s2 = (s3, None)"
    and s3: "s3 = s2\<lparr>df := with_relative d a b c,
       trace := trace s2 @ [SetItem ''Sequential Relative'', SetItem ''Parallel Relative'',
                           SetItem ''Optimized Relative'']\<rparr>"
    using relative_ok [of s2 a b c] assms(3,4,5) d2 by simp
  have d3: "df s3 = with_relative d a b c" by (simp add: s3)
  have r4: "run plot_3 s3 =
    (s3\<lparr>files := (files s3)(''relative_performance_comparison.png'' \<mapsto>
                     \<lparr>picture = chart_3 (nrows d) (broadcast d 1) (series_truediv a b) (series_truediv a c) x, dpi = 300\<rparr>),
       fig := chart_3 (nrows d) (broadcast d 1) (series_truediv a b) (series_truediv a c) x,
       trace := trace s3 @ [Figure, Savefig ''relative_performance_comparison.png'', Show]\<rparr>, None)"
    using plot_3_ok [of s3 "broadcast d 1" "series_truediv a b" "series_truediv a c" x] assms(2)
    by (simp add: d3 map_of_with_relative nrows_with_relative)
  have "main inp fs = run (plot_1 @ plot_2 @ relative @ plot_3) (loaded inp fs d)"
    using assms(1) by (simp add: main_load)
  also have "\<dots> = run plot_3 s3"
    using run_plot_1_loaded [OF assms(2-5), of inp fs] r2 r3 by (simp add: run_append)
  also have "\<dots> = (final inp fs d x a b c p q, None)"
    unfolding r4 by (simp add: s3 s2 after_1_def final_def)
  finally show ?thesis .
qed

lemma main_cases:
  "(\<exists>e. read_csv inp = Inl e \<and> main inp fs = (start inp fs, Some e))
 \<or> (\<exists>d s' k. read_csv inp = Inr d \<and> main inp fs = (s', Some (KeyError k))
       \<and> files s' = fs \<and> df s' = d \<and> trace s' = [Figure])
 \<or> (\<exists>d x a b c s' k. read_csv inp = Inr d
       \<and> map_of (cols d) ''Input Size'' = Some x
       \<and> map_of (cols d) ''Sequential Time'' = Some a
       \<and> map_of (cols d) ''Parallel Time'' = Some b
       \<and> map_of (cols d) ''Optimized Parallel Time'' = Some c
       \<and> main inp fs = (s', Some (KeyError k))
       \<and> files s' = fs(''execution_time_comparison.png'' \<mapsto> \<lparr>picture = chart_1 x a b c, dpi = 300\<rparr>)
       \<and> df s' = d
       \<and> trace s' = [Figure, Savefig ''execution_time_comparison.png'', Show, Figure])
 \<or> (\<exists>d x a b c p q. read_csv inp = Inr d
       \<and> map_of (cols d) ''Input Size'' = Some x
       \<and> map_of (cols d) ''Sequential Time'' = Some a
       \<and> map_of (cols d) ''Parallel Time'' = Some b
       \<and> map_of (cols d) ''Optimized Parallel Time'' = Some c
       \<and> map_of (cols d) ''Parallel Speedup'' = Some p
       \<and> map_of (cols d) ''Optimized Speedup'' = Some q
       \<and> main inp fs = (final inp fs d x a b c p q, None))"
proof (cases "read_csv inp")
  case (Inl e)
  then show ?thesis by (simp add: main_load)
next
  case (Inr d)
  show ?thesis
  proof (cases "\<exists>x a b c. map_of (cols d) ''Input Size'' = Some x
      \<and> map_of (cols d) ''Sequential Time'' = Some a
      \<and> map_of (cols d) ''Parallel Time'' = Some b
      \<and> map_of (cols d) ''Optimized Parallel Time'' = Some c")
    case False
    from main_plot_1_error [OF Inr False, of fs] show ?thesis
      using Inr by blast
  next
    case True
    then obtain x a b c where four: "map_of (cols d) ''Input Size'' = Some x"
      "map_of (cols d) ''Sequential Time'' = Some a"
      "map_of (cols d) ''Parallel Time'' = Some b"
      "map_of (cols d) ''Optimized Parallel Time'' = Some c"
      by blast
    show ?thesis
    proof (cases "\<exists>p q. map_of (cols d) ''Parallel Speedup'' = Some p
      \<and> map_of (cols d) ''Optimized Speedup'' = Some q")
      case False
      from main_plot_2_error [OF Inr four False, of fs] show ?thesis
        using Inr four by blast
    next
      case True
      then obtain p q where two: "map_of (cols d) ''Parallel Speedup'' = Some p"
        "map_of (cols d) ''Optimized Speedup'' = Some q"
        by blast
      from main_ok [OF Inr four two, of fs] show ?thesis
        using Inr four two by blast
    qed
  qed
qed

section \<open>The table along a run\<close>








section \<open>The working directory does not reach the table\<close>



section \<open>Sample runs\<close>



lemma read_sample_report: "read_csv (Some sample_report) = Inr sample_loaded"
  by (simp add: read_csv_def sample_report_def sample_loaded_def width_def column_def
      infer_dtype_def field_at_def upt_rec)

lemma main_sample_report:
  "main (Some sample_report) fs =
     (final (Some sample_report) fs sample_loaded
        (Int64 [100, 1000]) (Float64 [Fin (3 / 2), Fin 12]) (Float64 [Fin (1 / 2), Fin 3])
        (Float64 [Fin (1 / 4), Fin 2]) (Float64 [Fin 3, Fin 4]) (Float64 [Fin 6, Fin 6]), None)"
  by (rule main_ok [OF read_sample_report]) (simp_all add: sample_loaded_def)

lemma main_sample_ok:
  "snd (main (Some sample_report) Map.empty) = None"
  "main (Some sample_report) Map.empty = (fst (main (Some sample_report) Map.empty), None)"
  by (simp_all add: main_sample_report)

lemma read_without_speedups: "read_csv (Some report_without_speedups) = Inr row_table"
  by (simp add: read_csv_def report_without_speedups_def row_table_def width_def column_def
      infer_dtype_def field_at_def upt_rec)

lemma main_without_speedups:
  "snd (main (Some report_without_speedups) Map.empty) = Some (KeyError ''Parallel Speedup'')"
  "files (fst (main (Some report_without_speedups) Map.empty)) =
     [''execution_time_comparison.png'' \<mapsto>
        \<lparr>picture = chart_1 (Int64 [100]) (Int64 [10]) (Int64 [2]) (Int64 [1]), dpi = 300\<rparr>]"
  "trace (fst (main (Some report_without_speedups) Map.empty)) =
     [Figure, Savefig ''execution_time_comparison.png'', Show, Figure]"
proof -
  let ?a = "after_1 (Some report_without_speedups) Map.empty row_table
         (Int64 [100]) (Int64 [10]) (Int64 [2]) (Int64 [1])"
  have 1: "run plot_1 (loaded (Some report_without_speedups) Map.empty row_table) =
      (after_1 (Some report_without_speedups) Map.empty row_table
         (Int64 [100]) (Int64 [10]) (Int64 [2]) (Int64 [1]), None)"
    by (rule run_plot_1_loaded) (simp_all add: row_table_def)
  have 2: "snd (run plot_2 ?a) = Some (KeyError ''Parallel Speedup'')"
    "files (fst (run plot_2 ?a)) =
       [''execution_time_comparison.png'' \<mapsto>
          \<lparr>picture = chart_1 (Int64 [100]) (Int64 [10]) (Int64 [2]) (Int64 [1]), dpi = 300\<rparr>]"
    "trace (fst (run plot_2 ?a)) =
       [Figure, Savefig ''execution_time_comparison.png'', Show, Figure]"
    by (simp_all add: plot_2_def plt_defs after_1_def row_table_def)
  have "main (Some report_without_speedups) Map.empty =
      run (plot_1 @ plot_2 @ relative @ plot_3)
        (loaded (Some report_without_speedups) Map.empty row_table)"
    by (simp add: main_load read_without_speedups)
  also have "\<dots> = run (plot_2 @ relative @ plot_3) ?a"
    by (subst run_append) (simp add: 1)
  also have "\<dots> = run plot_2 ?a"
    using 2(1) by (rule run_append_error)
  finally have 3: "main (Some report_without_speedups) Map.empty = run plot_2 ?a" .
  show "snd (main (Some report_without_speedups) Map.empty) = Some (KeyError ''Parallel Speedup'')"
    "files (fst (main (Some report_without_speedups) Map.empty)) =
     [''execution_time_comparison.png'' \<mapsto>
        \<lparr>picture = chart_1 (Int64 [100]) (Int64 [10]) (Int64 [2]) (Int64 [1]), dpi = 300\<rparr>]"
    "trace (fst (main (Some report_without_speedups) Map.empty)) =
     [Figure, Savefig ''execution_time_comparison.png'', Show, Figure]"
    unfolding 3 by (fact 2)+
qed

lemma main_None_final:
  "main inp fs = (s', None) \<Longrightarrow> \<exists>d x a b c p q. s' = final inp fs d x a b c p q"
  using main_cases [of inp fs] by (elim disjE exE conjE) (simp_all, blast)

section \<open>The claims\<close>





text \<open>
  C3. When the header of the input file has no \<open>Optimized Parallel Time\<close>, the run ends
  with an error, the image files of the working directory are those it started with, and
  no \<^verbatim>\<open>savefig\<close> has run: neither \<^verbatim>\<open>execution_time_comparison.png\<close> nor any other
  chart file is written.
\<close>

theorem missing_optimized_column:
  assumes "''Optimized Parallel Time'' \<notin> set (header f)"
  shows "\<exists>e. snd (main (Some f) fs) = Some e \<and> files (fst (main (Some f) fs)) = fs
           \<and> saved (trace (fst (main (Some f) fs))) = []"
  using main_cases [of "Some f" fs]
proof (elim disjE exE conjE)
  fix e
  assume "main (Some f) fs = (start (Some f) fs, Some e)"
  then show ?thesis by (simp add: start_def)
next
  fix d s' k
  assume "main (Some f) fs = (s', Some (KeyError k))" "files s' = fs" "trace s' = [Figure]"
  then show ?thesis by simp
next
  fix d c
  assume "read_csv (Some f) = Inr d" "map_of (cols d) ''Optimized Parallel Time'' = Some c"
  with assms read_csv_keys show ?thesis by blast
next
  fix d c
  assume "read_csv (Some f) = Inr d" "map_of (cols d) ''Optimized Parallel Time'' = Some c"
  with assms read_csv_keys show ?thesis by blast
qed

theorem missing_optimized_column_witness:
  "''Optimized Parallel Time'' \<notin> set (header report_without_optimized)
   \<and> (\<exists>e. snd (main (Some report_without_optimized) Map.empty) = Some e
         \<and> files (fst (main (Some report_without_optimized) Map.empty)) = Map.empty
         \<and> saved (trace (fst (main (Some report_without_optimized) Map.empty))) = [])"
proof -
  have h: "''Optimized Parallel Time'' \<notin> set (header report_without_optimized)"
    by (simp add: report_without_optimized_def)
  from missing_optimized_column [OF h, of Map.empty] h show ?thesis
    by blast
qed

text \<open>
  C4. Failure is not atomic. There is an input without the \<open>Parallel Speedup\<close> column on
  which the run, started in a directory without image files, ends with the error
  \<^verbatim>\<open>KeyError('Parallel Speedup')\<close> after it has written
  \<^verbatim>\<open>execution_time_comparison.png\<close>, which is then the one image file there.
\<close>

theorem failure_not_atomic:
  "\<exists>f. ''Parallel Speedup'' \<notin> set (header f)
     \<and> snd (main (Some f) Map.empty) = Some (KeyError ''Parallel Speedup'')
     \<and> saved (trace (fst (main (Some f) Map.empty))) = [''execution_time_comparison.png'']
     \<and> dom (files (fst (main (Some f) Map.empty))) = {''execution_time_comparison.png''}"
proof (rule exI [of _ report_without_speedups], intro conjI)
  show "''Parallel Speedup'' \<notin> set (header report_without_speedups)"
    by (simp add: report_without_speedups_def)
qed (simp_all add: main_without_speedups)




text \<open>
  C7. In a row \<open>i\<close> where \<open>Sequential Time\<close> is 10, \<open>Parallel Time\<close> is 2 and
  \<open>Optimized Parallel Time\<close> is 1, lines 40 to 42 give \<open>Parallel Relative = 5.0\<close> and
  \<open>Optimized Relative = 10.0\<close>. The witness is the table whose only row is
  \<open>(100, 10, 2, 1)\<close>.
\<close>

theorem relative_claimed_row:
  assumes "wf_frame (df s)" and "i < nrows (df s)"
    and "getitem (df s) ''Sequential Time'' = Inr a" and "astype_float a ! i = Fin 10"
    and "getitem (df s) ''Parallel Time'' = Inr b" and "astype_float b ! i = Fin 2"
    and "getitem (df s) ''Optimized Parallel Time'' = Inr c" and "astype_float c ! i = Fin 1"
  shows "\<exists>s' p q. run relative s = (s', None)
         \<and> getitem (df s') ''Parallel Relative'' = Inr (Float64 p) \<and> p ! i = Fin 5
         \<and> getitem (df s') ''Optimized Relative'' = Inr (Float64 q) \<and> q ! i = Fin 10"
proof -
  have cols: "map_of (cols (df s)) ''Sequential Time'' = Some a"
    "map_of (cols (df s)) ''Parallel Time'' = Some b"
    "map_of (cols (df s)) ''Optimized Parallel Time'' = Some c"
    using assms(3,5,7) by (simp_all add: getitem_Inr)
  have lens: "i < len a" "i < len b" "i < len c"
    using cols assms(1,2) by (simp_all add: wf_frame_lookup)
  have "astype_float (series_truediv a b) ! i = Fin 5"
    "astype_float (series_truediv a c) ! i = Fin 10"
    using lens assms(4,6,8) by (simp_all add: truediv_cell truediv_def)
  then show ?thesis
    using relative_ok [OF cols]
    by (simp add: getitem_Inr map_of_with_relative series_truediv_def)
qed

theorem relative_claimed_row_witness:
  "wf_frame (df (loaded None Map.empty row_table))
   \<and> (0 :: nat) < nrows (df (loaded None Map.empty row_table))
   \<and> getitem (df (loaded None Map.empty row_table)) ''Input Size'' = Inr (Int64 [100])
   \<and> getitem (df (loaded None Map.empty row_table)) ''Sequential Time'' = Inr (Int64 [10])
   \<and> astype_float (Int64 [10]) ! 0 = Fin 10
   \<and> getitem (df (loaded None Map.empty row_table)) ''Parallel Time'' = Inr (Int64 [2])
   \<and> astype_float (Int64 [2]) ! 0 = Fin 2
   \<and> getitem (df (loaded None Map.empty row_table)) ''Optimized Parallel Time'' = Inr (Int64 [1])
   \<and> astype_float (Int64 [1]) ! 0 = Fin 1
   \<and> (\<exists>s' p q. run relative (loaded None Map.empty row_table) = (s', None)
         \<and> getitem (df s') ''Parallel Relative'' = Inr (Float64 p) \<and> p ! 0 = Fin 5
         \<and> getitem (df s') ''Optimized Relative'' = Inr (Float64 q) \<and> q ! 0 = Fin 10)"
proof -
  let ?s = "loaded None Map.empty row_table"
  have h1: "wf_frame (df ?s)" and h2: "(0 :: nat) < nrows (df ?s)"
    by (simp_all add: loaded_def row_table_def wf_frame_def)
  have x: "getitem (df ?s) ''Input Size'' = Inr (Int64 [100])"
    and a: "getitem (df ?s) ''Sequential Time'' = Inr (Int64 [10])"
    and b: "getitem (df ?s) ''Parallel Time'' = Inr (Int64 [2])"
    and c: "getitem (df ?s) ''Optimized Parallel Time'' = Inr (Int64 [1])"
    by (simp_all add: loaded_def row_table_def getitem_def)
  have va: "astype_float (Int64 [10]) ! 0 = Fin 10"
    and vb: "astype_float (Int64 [2]) ! 0 = Fin 2"
    and vc: "astype_float (Int64 [1]) ! 0 = Fin 1"
    by simp_all
  from relative_claimed_row [OF h1 h2 a va b vb c vc] h1 h2 x a b c va vb vc show ?thesis
    by blast
qed

text \<open>
  C8. A run that raises nothing leaves the working directory as it was but for three
  files, \<^verbatim>\<open>execution_time_comparison.png\<close>, \<^verbatim>\<open>speedup_comparison.png\<close> and
  \<^verbatim>\<open>relative_performance_comparison.png\<close>, each written at 300 DPI in place of any
  file of that name; these three writes, in this order, are all the writes of the run.
\<close>

theorem three_images:
  assumes "main inp fs = (s', None)"
  shows "\<exists>i1 i2 i3.
           files s' = fs(''execution_time_comparison.png'' \<mapsto> i1,
                         ''speedup_comparison.png'' \<mapsto> i2,
                         ''relative_performance_comparison.png'' \<mapsto> i3)
         \<and> dpi i1 = 300 \<and> dpi i2 = 300 \<and> dpi i3 = 300
         \<and> saved (trace s') = [''execution_time_comparison.png'', ''speedup_comparison.png'',
                                ''relative_performance_comparison.png'']"
proof -
  from main_None_final [OF assms] obtain d x a b c p q
    where s': "s' = final inp fs d x a b c p q" by blast
  show ?thesis
    unfolding s' final_def
    by (intro exI [of _ "\<lparr>picture = chart_1 x a b c, dpi = 300\<rparr>"]
        exI [of _ "\<lparr>picture = chart_2 x p q, dpi = 300\<rparr>"]
        exI [of _ "\<lparr>picture = chart_3 (nrows d) (broadcast d 1) (series_truediv a b)
                                (series_truediv a c) x, dpi = 300\<rparr>"]) simp
qed

theorem three_images_witness:
  "snd (main (Some sample_report) Map.empty) = None
   \<and> (\<exists>i1 i2 i3.
         files (fst (main (Some sample_report) Map.empty)) =
           [''execution_time_comparison.png'' \<mapsto> i1,
            ''speedup_comparison.png'' \<mapsto> i2,
            ''relative_performance_comparison.png'' \<mapsto> i3]
       \<and> dpi i1 = 300 \<and> dpi i2 = 300 \<and> dpi i3 = 300
       \<and> saved (trace (fst (main (Some sample_report) Map.empty))) =
           [''execution_time_comparison.png'', ''speedup_comparison.png'',
            ''relative_performance_comparison.png''])"
  using three_images [OF main_sample_ok(2)] main_sample_ok(1) by blast



text \<open>
  C10. Wherever a run ends, each of the six columns of the report is in the table as it
  was loaded. After a run that raises nothing, the files of charts 1 and 2 hold the lines
  drawn from the loaded columns: the assignments of lines 40 to 42 change neither.
\<close>

theorem loaded_columns_kept:
  assumes "read_csv inp = Inr d" and "main inp fs = (s', e)" and "k \<in> set report_columns"
  shows "getitem (df s') k = getitem d k
       \<and> (e = None \<longrightarrow>
            (\<exists>x a b c p q.
               getitem d ''Input Size'' = Inr x
             \<and> getitem d ''Sequential Time'' = Inr a
             \<and> getitem d ''Parallel Time'' = Inr b
             \<and> getitem d ''Optimized Parallel Time'' = Inr c
             \<and> getitem d ''Parallel Speedup'' = Inr p
             \<and> getitem d ''Optimized Speedup'' = Inr q
             \<and> files s' ''execution_time_comparison.png''
                 = Some \<lparr>picture = chart_1 x a b c, dpi = 300\<rparr>
             \<and> files s' ''speedup_comparison.png''
                 = Some \<lparr>picture = chart_2 x p q, dpi = 300\<rparr>))"
proof -
  have keep: "getitem (with_relative d a b c) k = getitem d k" for a b c
    using assms(3) by (auto simp: getitem_def map_of_with_relative report_columns_def)
  from main_cases [of inp fs] show ?thesis
  proof (elim disjE exE conjE)
    fix e'
    assume "read_csv inp = Inl e'"
    with assms(1) show ?thesis by simp
  next
    fix d' s'' k'
    assume "read_csv inp = Inr d'" "main inp fs = (s'', Some (KeyError k'))" "df s'' = d'"
    with assms(1,2) show ?thesis by auto
  next
    fix d' s'' k'
    assume "read_csv inp = Inr d'" "main inp fs = (s'', Some (KeyError k'))" "df s'' = d'"
    with assms(1,2) show ?thesis by auto
  next
    fix d' x a b c p q
    assume "read_csv inp = Inr d'" "map_of (cols d') ''Input Size'' = Some x"
      "map_of (cols d') ''Sequential Time'' = Some a"
      "map_of (cols d') ''Parallel Time'' = Some b"
      "map_of (cols d') ''Optimized Parallel Time'' = Some c"
      "map_of (cols d') ''Parallel Speedup'' = Some p"
      "map_of (cols d') ''Optimized Speedup'' = Some q"
      "main inp fs = (final inp fs d' x a b c p q, None)"
    with assms(1,2) keep [of a b c] show ?thesis
      by (auto simp: final_def getitem_Inr)
  qed
qed

theorem loaded_columns_kept_witness:
  "read_csv (Some sample_report) = Inr sample_loaded
   \<and> snd (main (Some sample_report) Map.empty) = None
   \<and> ''Parallel Time'' \<in> set report_columns
   \<and> getitem (df (fst (main (Some sample_report) Map.empty))) ''Parallel Time''
       = getitem sample_loaded ''Parallel Time''
   \<and> (\<exists>x a b c p q.
         getitem sample_loaded ''Input Size'' = Inr x
       \<and> getitem sample_loaded ''Sequential Time'' = Inr a
       \<and> getitem sample_loaded ''Parallel Time'' = Inr b
       \<and> getitem sample_loaded ''Optimized Parallel Time'' = Inr c
       \<and> getitem sample_loaded ''Parallel Speedup'' = Inr p
       \<and> getitem sample_loaded ''Optimized Speedup'' = Inr q
       \<and> files (fst (main (Some sample_report) Map.empty)) ''execution_time_comparison.png''
           = Some \<lparr>picture = chart_1 x a b c, dpi = 300\<rparr>
       \<and> files (fst (main (Some sample_report) Map.empty)) ''speedup_comparison.png''
           = Some \<lparr>picture = chart_2 x p q, dpi = 300\<rparr>)"
proof -
  have k: "''Parallel Time'' \<in> set report_columns"
    by (simp add: report_columns_def)
  from loaded_columns_kept [OF read_sample_report main_sample_ok(2) k]
    read_sample_report main_sample_ok(1) k
  show ?thesis by blast
qed

end
